theory Spec2Isabelle
  imports Main
begin

section \<open>The assessment form of app.js\<close>

text \<open>
  The file \<^verbatim>\<open>src/FE/evolv-app/src/app.js\<close> holds one React component, \<^verbatim>\<open>app\<close>. Its seven
  \<^verbatim>\<open>useState\<close> cells are the record \<open>app_state\<close>; the two asynchronous functions
  \<^verbatim>\<open>rotateLoadingMessages\<close> and \<^verbatim>\<open>handleSubmit\<close> are split at their \<^verbatim>\<open>await\<close>s into the part
  that runs at once and the part that runs when the awaited promise settles. What is
  pending between the two (requests in flight, timers set) is kept in the record
  \<open>world\<close>, next to the component's state.
\<close>

subsection \<open>Data\<close>

text \<open>An entry of \<^verbatim>\<open>response.result\<close>, with the four properties that the render reads.\<close>

record assessment =
  score :: int
  verdict :: string
  red_flags :: "string list"
  alternative_plan :: string

text \<open>
  The object that \<^verbatim>\<open>__jacSpawn\<close> resolves to. Only its property \<^verbatim>\<open>result\<close> is read;
  \<open>None\<close> stands for a missing (falsy) property, \<open>Some xs\<close> for an array, which is
  truthy in JavaScript also when it is empty.
\<close>

datatype response = Response (response_result: "assessment list option")

datatype exn = TypeError string | ReferenceError string | Rejection string

datatype settlement = Resolved response | Rejected exn

text \<open>The three arguments of one call of \<^verbatim>\<open>__jacSpawn\<close>; the third is an object literal.\<close>

record spawn_call =
  walker :: string
  node :: string
  payload :: "(string \<times> string) list"

text \<open>
  A timer set by \<^verbatim>\<open>setTimeout(resolve, 800)\<close> inside the loop of
  \<^verbatim>\<open>rotateLoadingMessages\<close>: its delay in milliseconds and the messages that the
  suspended loop has still to go through when the timer fires.
\<close>

record timer =
  delay :: nat
  remaining :: "string list"

record app_state =
  role :: string
  stack :: string
  techIdea :: string
  latencyReq :: string
  result :: "assessment option"
  loading :: bool
  loadingText :: string

record world =
  ui :: app_state
  requests :: "spawn_call list"
  timers :: "timer list"
  unhandled :: "exn list"
  console :: "string list"

text \<open>The initial values given to \<^verbatim>\<open>useState\<close>; nothing is pending.\<close>

definition init_state :: app_state where
  "init_state =
     \<lparr>role = ''Solo Founder'', stack = [], techIdea = [],
      latencyReq = ''Real-time (<200ms)'', result = None, loading = False,
      loadingText = ''Analyzing Architecture...''\<rparr>"

definition init :: world where
  "init = \<lparr>ui = init_state, requests = [], timers = [], unhandled = [], console = []\<rparr>"

subsection \<open>The state setters\<close>

definition setRole :: "string \<Rightarrow> world \<Rightarrow> world" where
  "setRole v w = w\<lparr>ui := (ui w)\<lparr>role := v\<rparr>\<rparr>"

definition setStack :: "string \<Rightarrow> world \<Rightarrow> world" where
  "setStack v w = w\<lparr>ui := (ui w)\<lparr>stack := v\<rparr>\<rparr>"

definition setTechIdea :: "string \<Rightarrow> world \<Rightarrow> world" where
  "setTechIdea v w = w\<lparr>ui := (ui w)\<lparr>techIdea := v\<rparr>\<rparr>"

definition setLatencyReq :: "string \<Rightarrow> world \<Rightarrow> world" where
  "setLatencyReq v w = w\<lparr>ui := (ui w)\<lparr>latencyReq := v\<rparr>\<rparr>"

definition setResult :: "assessment option \<Rightarrow> world \<Rightarrow> world" where
  "setResult r w = w\<lparr>ui := (ui w)\<lparr>result := r\<rparr>\<rparr>"

definition setLoading :: "bool \<Rightarrow> world \<Rightarrow> world" where
  "setLoading b w = w\<lparr>ui := (ui w)\<lparr>loading := b\<rparr>\<rparr>"

definition setLoadingText :: "string \<Rightarrow> world \<Rightarrow> world" where
  "setLoadingText t w = w\<lparr>ui := (ui w)\<lparr>loadingText := t\<rparr>\<rparr>"

subsection \<open>getScoreColor\<close>

text \<open>
  The three colours are the string literals of the source; the names say what the
  component uses them for (the heading of the alternative, the middle band, the heading
  of the red flags).
\<close>

definition success_color :: string where
  "success_color = ''#10B981''"

definition warning_color :: string where
  "warning_color = ''#F59E0B''"

definition danger_color :: string where
  "danger_color = ''#EF4444''"

definition getScoreColor :: "int \<Rightarrow> string" where
  "getScoreColor s =
     (if s \<ge> 7 then ''#10B981''
      else if s \<ge> 5 then ''#F59E0B''
      else ''#EF4444'')"

subsection \<open>The host\<close>

text \<open>
  app.js relies on three things that it does not define. Its line 1 imports
  \<^verbatim>\<open>__jacJsx\<close> and \<^verbatim>\<open>__jacSpawn\<close> and nothing else, so every other free name is looked up
  among the globals of the engine that runs the file.
  \<^item> Line 15 calls \<^verbatim>\<open>Promise\<close> as a plain function, without \<^verbatim>\<open>new\<close>. In ECMAScript the
    Promise constructor throws a TypeError when it is called that way (its first step:
    "If NewTarget is undefined, throw a TypeError exception"), before it runs the
    executor.
  \<^item> Lines 25 and 48 call \<^verbatim>\<open>len\<close>, and line 28 calls \<^verbatim>\<open>print\<close>. ECMAScript has no
    global of either name: the evaluation of the unbound name throws a ReferenceError.
    (A browser window has a \<^verbatim>\<open>print\<close> of its own, the print dialog; the call is
    not reached there, since \<^verbatim>\<open>len\<close> throws before it.)

  The host is a parameter of the model, so that each function is translated whole.
  \<open>ECMAScript\<close> is the engine that runs the file, a browser: the three calls throw.
  \<open>Constructing\<close> is the host that the file is written for and that no engine is: the
  call of \<^verbatim>\<open>Promise\<close> does what \<^verbatim>\<open>new Promise\<close> does (it runs the executor, which sets
  the timer), \<open>len\<close> is the number of entries of a sequence, and \<open>print\<close> writes a
  line and touches no state of the component.
\<close>

datatype host = ECMAScript | Constructing

fun Promise_call :: "host \<Rightarrow> exn option" where
  "Promise_call ECMAScript =
     Some (TypeError ''Promise constructor cannot be invoked without new'')"
| "Promise_call Constructing = None"

text \<open>
  Modelled from the spec: what \<^verbatim>\<open>len\<close> and \<^verbatim>\<open>print\<close> do in the host \<open>Constructing\<close>,
  where they exist. The spec reads the test \<^verbatim>\<open>len(response.result) > 0\<close> as "the
  response contains at least one result entry".
\<close>

fun len :: "host \<Rightarrow> 'a list \<Rightarrow> exn + int" where
  "len ECMAScript xs = Inl (ReferenceError ''len is not defined'')"
| "len Constructing xs = Inr (int (length xs))"

fun print :: "host \<Rightarrow> string \<Rightarrow> world \<Rightarrow> exn + world" where
  "print ECMAScript line w = Inl (ReferenceError ''print is not defined'')"
| "print Constructing line w = Inr (w\<lparr>console := console w @ [line]\<rparr>)"

subsection \<open>The render\<close>

text \<open>
  What the component returns, reduced to the parts that depend on the state: the submit
  button, the panel with the loading message (\<^verbatim>\<open>loading && ...\<close>) and the panel with
  the result (\<^verbatim>\<open>result && !loading && ...\<close>). For a string, \<^verbatim>\<open>!stack\<close> is true
  exactly for the empty string; no trimming is applied.
\<close>

record result_card =
  card_background :: string
  card_border :: string
  score_shown :: int
  score_color :: string
  verdict_shown :: string
  verdict_color :: string
  flags_shown :: "string list option"
  plan_shown :: string

record view =
  button_disabled :: bool
  button_label :: string
  loading_panel :: "string option"
  result_panel :: "result_card option"

text \<open>
  The panel with the result calls \<^verbatim>\<open>len(result.red_flags)\<close>. That call is made while the
  arguments of the panel are evaluated, so where it throws, the call of the component
  throws and nothing is rendered. The two gates before it are short-circuits: with no
  result, or while loading, the panel is not evaluated at all.
\<close>

definition card :: "host \<Rightarrow> assessment \<Rightarrow> exn + result_card" where
  "card h r =
     (case len h (red_flags r) of
        Inl e \<Rightarrow> Inl e
      | Inr n \<Rightarrow>
          Inr \<lparr>card_background =
                 (if score r < 5 then getScoreColor (score r) else ''#F3F4F6''),
               card_border = ''3px solid '' @ getScoreColor (score r),
               score_shown = score r,
               score_color = getScoreColor (score r),
               verdict_shown = verdict r,
               verdict_color =
                 (if score r < 5 then ''white'' else getScoreColor (score r)),
               flags_shown = (if n > 0 then Some (red_flags r) else None),
               plan_shown = alternative_plan r\<rparr>)"

definition result_element :: "host \<Rightarrow> app_state \<Rightarrow> exn + result_card option" where
  "result_element h st =
     (case result st of
        None \<Rightarrow> Inr None
      | Some r \<Rightarrow>
          if loading st then Inr None
          else (case card h r of Inl e \<Rightarrow> Inl e | Inr c \<Rightarrow> Inr (Some c)))"

definition render :: "host \<Rightarrow> app_state \<Rightarrow> exn + view" where
  "render h st =
     (case result_element h st of
        Inl e \<Rightarrow> Inl e
      | Inr panel \<Rightarrow>
          Inr \<lparr>button_disabled = (loading st \<or> stack st = [] \<or> techIdea st = []),
               button_label = (if loading st then ''Consulting...'' else ''Get Assessment''),
               loading_panel = (if loading st then Some (loadingText st) else None),
               result_panel = panel\<rparr>)"

subsection \<open>rotateLoadingMessages\<close>

definition messages :: "string list" where
  "messages =
     [''Analyzing Architecture...'', ''Calculating Latency Risks...'',
      ''Evaluating Tech Stack...'', ''Checking for Over-Engineering...'']"

text \<open>
  The loop body is \<^verbatim>\<open>setLoadingText(msg); await Promise(resolve => { setTimeout(resolve, 800); })\<close>.
  Where the call of \<^verbatim>\<open>Promise\<close> throws, no timer is set, the exception ends the loop
  inside the async function, and the promise of \<^verbatim>\<open>rotateLoadingMessages\<close> is rejected.
  \<^verbatim>\<open>handleSubmit\<close> calls it without \<^verbatim>\<open>await\<close> and without a handler, so the rejection
  stays unhandled and \<^verbatim>\<open>handleSubmit\<close> goes on. Where the call builds the promise, the
  loop is resumed when the timer fires.
\<close>

text \<open>
  One run of the loop from the messages that are left, up to its next suspension: at
  the start this is the whole list, and when a timer fires it is the list that the
  timer holds.
\<close>

fun rotate :: "host \<Rightarrow> string list \<Rightarrow> world \<Rightarrow> world" where
  "rotate h [] w = w"
| "rotate h (msg # rest) w =
     (let w1 = setLoadingText msg w in
      case Promise_call h of
        Some e \<Rightarrow> w1\<lparr>unhandled := unhandled w1 @ [e]\<rparr>
      | None \<Rightarrow> w1\<lparr>timers := timers w1 @ [\<lparr>delay = 800, remaining = rest\<rparr>]\<rparr>)"

definition rotateLoadingMessages :: "host \<Rightarrow> world \<Rightarrow> world" where
  "rotateLoadingMessages h w = rotate h messages w"

subsection \<open>handleSubmit\<close>

definition jacSpawn :: "string \<Rightarrow> string \<Rightarrow> (string \<times> string) list \<Rightarrow> world \<Rightarrow> world" where
  "jacSpawn wk nd obj w =
     w\<lparr>requests := requests w @ [\<lparr>walker = wk, node = nd, payload = obj\<rparr>]\<rparr>"

text \<open>
  The part of \<^verbatim>\<open>handleSubmit\<close> before its \<^verbatim>\<open>await\<close>. The four values sent are those of
  the render whose closure the handler is, that is, of the state at the call.
  There is no test of the inputs and no test of \<open>loading\<close> here.
\<close>

definition handleSubmit :: "host \<Rightarrow> world \<Rightarrow> world" where
  "handleSubmit h w =
     (let st = ui w;
          w1 = setLoading True w;
          w2 = setResult None w1;
          w3 = rotateLoadingMessages h w2
      in jacSpawn ''FeasibilityConsultant'' []
           [(''role'', role st), (''stack'', stack st),
            (''tech_idea'', techIdea st), (''latency_req'', latencyReq st)] w3)"

text \<open>
  The part of \<^verbatim>\<open>handleSubmit\<close> after its \<^verbatim>\<open>await\<close>, run when the request settles. There
  is no \<^verbatim>\<open>try\<close> in the function: a rejection of the request, and an exception thrown
  by \<^verbatim>\<open>len\<close> or \<^verbatim>\<open>print\<close>, end it on the spot, as a rejection of its own promise, which
  the button's \<^verbatim>\<open>onClick\<close> does not handle; \<^verbatim>\<open>setLoading(false)\<close> on line 30 is then not
  reached. In \<^verbatim>\<open>response.result && len(response.result) > 0\<close> the call of \<^verbatim>\<open>len\<close> is
  made for every array, also the empty one, and skipped only when the property is
  missing. The read \<^verbatim>\<open>response.result[0]\<close> is under the test that the array is not
  empty.
\<close>

definition handleSubmit_resume :: "host \<Rightarrow> settlement \<Rightarrow> world \<Rightarrow> world" where
  "handleSubmit_resume h s w =
     (case s of
        Rejected e \<Rightarrow> w\<lparr>unhandled := unhandled w @ [e]\<rparr>
      | Resolved response \<Rightarrow>
          (case response_result response of
             None \<Rightarrow> setLoading False w
           | Some xs \<Rightarrow>
               (case len h xs of
                  Inl e \<Rightarrow> w\<lparr>unhandled := unhandled w @ [e]\<rparr>
                | Inr n \<Rightarrow>
                    if n > 0
                    then
                      (let w1 = setResult (Some (xs ! 0)) w in
                       case print h ''Here are results'' w1 of
                         Inl e \<Rightarrow> w1\<lparr>unhandled := unhandled w1 @ [e]\<rparr>
                       | Inr w2 \<Rightarrow> setLoading False w2)
                    else setLoading False w)))"

subsection \<open>Events\<close>

text \<open>
  What can happen to the mounted component: a click on the submit button (a disabled
  button delivers no click, and there is no button where the render has thrown;
  otherwise \<^verbatim>\<open>onClick\<close> is \<^verbatim>\<open>handleSubmit\<close>, which has no other caller), a change of one of
  the four inputs, the settlement of the request in flight at a position of
  \<open>requests\<close>, and the firing of the timer at a position of \<open>timers\<close>. A settlement or
  a firing at a position where nothing is pending does not happen; the model leaves
  the world as it is.
\<close>

datatype event =
    Click
  | ChangeRole string
  | ChangeStack string
  | ChangeTechIdea string
  | ChangeLatencyReq string
  | Settle nat settlement
  | Tick nat

definition without :: "nat \<Rightarrow> 'a list \<Rightarrow> 'a list" where
  "without i xs = take i xs @ drop (Suc i) xs"

fun step :: "host \<Rightarrow> event \<Rightarrow> world \<Rightarrow> world" where
  "step h Click w =
     (case render h (ui w) of
        Inl e \<Rightarrow> w
      | Inr v \<Rightarrow> if button_disabled v then w else handleSubmit h w)"
| "step h (ChangeRole v) w = setRole v w"
| "step h (ChangeStack v) w = setStack v w"
| "step h (ChangeTechIdea v) w = setTechIdea v w"
| "step h (ChangeLatencyReq v) w = setLatencyReq v w"
| "step h (Settle i s) w =
     (if i < length (requests w)
      then handleSubmit_resume h s (w\<lparr>requests := without i (requests w)\<rparr>)
      else w)"
| "step h (Tick j) w =
     (if j < length (timers w)
      then rotate h (remaining (timers w ! j)) (w\<lparr>timers := without j (timers w)\<rparr>)
      else w)"

fun run :: "host \<Rightarrow> event list \<Rightarrow> world \<Rightarrow> world" where
  "run h [] w = w"
| "run h (e # es) w = run h es (step h e w)"

subsection \<open>Submissions in flight\<close>


text \<open>The loading text is the first message and no timer is set.\<close>

definition first_message_only :: "world \<Rightarrow> bool" where
  "first_message_only w = (loadingText (ui w) = messages ! 0 \<and> timers w = [])"

text \<open>No result has been stored.\<close>

definition no_result :: "world \<Rightarrow> bool" where
  "no_result w = (result (ui w) = None)"

subsection \<open>Inputs used in the examples\<close>

text \<open>The form as the spec's end-to-end properties fill it in, and a result as they return it.\<close>

definition filled :: world where
  "filled =
     setTechIdea ''Add a Kubernetes cluster for a single cron job''
       (setStack ''Node, Postgres'' init)"

definition overkill :: assessment where
  "overkill =
     \<lparr>score = 2, verdict = ''Overkill'',
      red_flags = [''Unjustified orchestration complexity''],
      alternative_plan = ''Use a scheduled function''\<rparr>"

section \<open>Properties\<close>

subsection \<open>What each part of the code leaves alone\<close>

lemmas setter_defs =
  setRole_def setStack_def setTechIdea_def setLatencyReq_def setResult_def
  setLoading_def setLoadingText_def

lemma rotate_requests [simp]: "requests (rotate h ms w) = requests w"
  by (cases ms; cases h) (simp_all add: setter_defs)

lemma rotate_loading [simp]: "loading (ui (rotate h ms w)) = loading (ui w)"
  by (cases ms; cases h) (simp_all add: setter_defs)

lemma rotate_result [simp]: "result (ui (rotate h ms w)) = result (ui w)"
  by (cases ms; cases h) (simp_all add: setter_defs)

lemma rotate_inputs [simp]:
  "role (ui (rotate h ms w)) = role (ui w)"
  "stack (ui (rotate h ms w)) = stack (ui w)"
  "techIdea (ui (rotate h ms w)) = techIdea (ui w)"
  "latencyReq (ui (rotate h ms w)) = latencyReq (ui w)"
  by (cases ms; cases h; simp add: setter_defs)+

lemma rotate_first [simp]: "loadingText (ui (rotate h (m # ms) w)) = m"
  by (cases h) (simp_all add: setter_defs)

lemma resume_requests [simp]: "requests (handleSubmit_resume h s w) = requests w"
  by (cases h)
     (simp_all add: handleSubmit_resume_def setter_defs Let_def
        split: settlement.split option.split)

lemma resume_timers [simp]: "timers (handleSubmit_resume h s w) = timers w"
  by (cases h)
     (simp_all add: handleSubmit_resume_def setter_defs Let_def
        split: settlement.split option.split)

lemma resume_loadingText [simp]:
  "loadingText (ui (handleSubmit_resume h s w)) = loadingText (ui w)"
  by (cases h)
     (simp_all add: handleSubmit_resume_def setter_defs Let_def
        split: settlement.split option.split)

text \<open>In a browser the code after the await either clears loading or changes no cell.\<close>

lemma resume_ECMAScript:
  "handleSubmit_resume ECMAScript s w =
     (case s of
        Rejected e \<Rightarrow> w\<lparr>unhandled := unhandled w @ [e]\<rparr>
      | Resolved response \<Rightarrow>
          (case response_result response of
             None \<Rightarrow> setLoading False w
           | Some xs \<Rightarrow>
               w\<lparr>unhandled := unhandled w @ [ReferenceError ''len is not defined'']\<rparr>))"
  by (simp add: handleSubmit_resume_def split: settlement.split option.split)

lemma resume_result_ECMAScript [simp]:
  "result (ui (handleSubmit_resume ECMAScript s w)) = result (ui w)"
  by (simp add: resume_ECMAScript setter_defs split: settlement.split option.split)

lemma handleSubmit_requests:
  "requests (handleSubmit h w) =
     requests w @
     [\<lparr>walker = ''FeasibilityConsultant'', node = [],
       payload = [(''role'', role (ui w)), (''stack'', stack (ui w)),
                  (''tech_idea'', techIdea (ui w)),
                  (''latency_req'', latencyReq (ui w))]\<rparr>]"
  by (simp add: handleSubmit_def jacSpawn_def rotateLoadingMessages_def Let_def setter_defs)

lemma handleSubmit_ui:
  "ui (handleSubmit h w) =
     (ui w)\<lparr>result := None, loading := True, loadingText := messages ! 0\<rparr>"
  by (cases h)
     (simp_all add: handleSubmit_def jacSpawn_def rotateLoadingMessages_def Let_def
        setter_defs messages_def)

subsection \<open>The render and the click\<close>

lemma render_no_result:
  "result st = None \<Longrightarrow>
     render h st =
       Inr \<lparr>button_disabled = (loading st \<or> stack st = [] \<or> techIdea st = []),
            button_label = (if loading st then ''Consulting...'' else ''Get Assessment''),
            loading_panel = (if loading st then Some (loadingText st) else None),
            result_panel = None\<rparr>"
  by (simp add: render_def result_element_def)

lemma render_button:
  "render h st = Inr v \<Longrightarrow>
     button_disabled v = (loading st \<or> stack st = [] \<or> techIdea st = [])"
  by (auto simp: render_def split: sum.splits)



lemma click_cases: "step h Click w = w \<or> (\<not> loading (ui w) \<and> step h Click w = handleSubmit h w)"
  by (auto simp: render_def split: sum.splits)

subsection \<open>At most one request in flight\<close>




subsection \<open>The rotation and the result in a browser\<close>

lemma rotate_timers_ECMAScript [simp]: "timers (rotate ECMAScript ms w) = timers w"
  by (cases ms) (simp_all add: setter_defs)

lemma handleSubmit_timers_ECMAScript: "timers (handleSubmit ECMAScript w) = timers w"
  by (simp add: handleSubmit_def jacSpawn_def rotateLoadingMessages_def Let_def setter_defs)

lemma first_message_only_step:
  "first_message_only w \<Longrightarrow> first_message_only (step ECMAScript e w)"
proof (cases e)
  case Click
  assume "first_message_only w"
  with Click click_cases [of ECMAScript w] show ?thesis
    by (auto simp: first_message_only_def handleSubmit_ui handleSubmit_timers_ECMAScript
          simp del: step.simps)
qed (auto simp: first_message_only_def setter_defs)

lemma first_message_only_run:
  "first_message_only w \<Longrightarrow> first_message_only (run ECMAScript es w)"
  by (induction es arbitrary: w) (simp_all add: first_message_only_step)

lemma no_result_step: "no_result w \<Longrightarrow> no_result (step ECMAScript e w)"
proof (cases e)
  case Click
  assume "no_result w"
  with Click click_cases [of ECMAScript w] show ?thesis
    by (auto simp: no_result_def handleSubmit_ui simp del: step.simps)
qed (auto simp: no_result_def setter_defs)

lemma no_result_run: "no_result w \<Longrightarrow> no_result (run ECMAScript es w)"
  by (induction es arbitrary: w) (simp_all add: no_result_step)

text \<open>
  In every world that the events lead to from the initial one, the component renders:
  in a browser no result is ever stored, and elsewhere the panel does not throw.
\<close>

lemma render_Constructing: "\<exists>v. render Constructing st = Inr v"
  by (simp add: render_def result_element_def card_def split: option.split)

lemma render_defined_on_runs: "\<exists>v. render h (ui (run h evs init)) = Inr v"
proof (cases h)
  case ECMAScript
  have "no_result init"
    by (simp add: no_result_def init_def init_state_def)
  then have "no_result (run ECMAScript evs init)"
    by (rule no_result_run)
  with ECMAScript show ?thesis
    by (simp add: no_result_def render_no_result)
next
  case Constructing
  then show ?thesis by (simp add: render_Constructing)
qed

subsection \<open>Settling the request just issued\<close>

lemma without_last [simp]: "without (length xs) (xs @ [x]) = xs"
  by (simp add: without_def)

lemma settle_issued:
  "step h (Settle (length (requests w)) s) (handleSubmit h w) =
     handleSubmit_resume h s ((handleSubmit h w)\<lparr>requests := requests w\<rparr>)"
  by (simp add: handleSubmit_requests)

lemmas run_defs =
  filled_def init_def init_state_def setter_defs render_def result_element_def card_def
  handleSubmit_def rotateLoadingMessages_def messages_def jacSpawn_def
  handleSubmit_resume_def without_def overkill_def Let_def

subsection \<open>What the code is written to do\<close>

text \<open>
  The loop of \<^verbatim>\<open>rotateLoadingMessages\<close>, seen in the host where the call of \<^verbatim>\<open>Promise\<close>
  builds the promise: after the click and n firings of the timer the loading text has
  gone through the four messages in order, each firing is that of a timer of 800 ms,
  and after the fourth message one more timer runs out and nothing follows.
\<close>

lemma rotation_with_constructed_promise:
  "map (\<lambda>n. loadingText (ui (run Constructing (Click # replicate n (Tick 0)) filled)))
     [0, 1, 2, 3, 4, 5] =
     [''Analyzing Architecture...'', ''Calculating Latency Risks...'',
      ''Evaluating Tech Stack...'', ''Checking for Over-Engineering...'',
      ''Checking for Over-Engineering...'', ''Checking for Over-Engineering...''] \<and>
   map (\<lambda>n. map delay (timers (run Constructing (Click # replicate n (Tick 0)) filled)))
     [0, 1, 2, 3, 4, 5] =
     [[800], [800], [800], [800], [], []]"
  by (simp add: run_defs numeral_eq_Suc)

text \<open>
  The code after the \<^verbatim>\<open>await\<close>, seen in the host where \<^verbatim>\<open>len\<close> and \<^verbatim>\<open>print\<close> exist: every
  resolved response ends with loading false; an empty sequence leaves the result
  cleared, and a sequence with entries stores the first.
\<close>

lemma resolved_response_with_len_supplied:
  "\<not> loading (ui (step Constructing (Settle (length (requests w)) (Resolved resp))
        (handleSubmit Constructing w))) \<and>
   ui (step Constructing (Settle (length (requests w)) (Resolved (Response (Some []))))
         (handleSubmit Constructing w)) =
     (ui w)\<lparr>result := None, loading := False, loadingText := messages ! 0\<rparr> \<and>
   ui (step Constructing (Settle (length (requests w)) (Resolved (Response (Some (a # as)))))
         (handleSubmit Constructing w)) =
     (ui w)\<lparr>result := Some a, loading := False, loadingText := messages ! 0\<rparr>"
  by (simp add: settle_issued handleSubmit_ui handleSubmit_resume_def setter_defs Let_def
        del: step.simps split: option.split)

subsection \<open>getScoreColor\<close>

text \<open>
  C7. For every integer score, getScoreColor returns the success colour when the score
  is at least 7, the warning colour when it is 5 or 6, and the danger colour when it is
  below 5; at 9 and 7 it is success, at 6 and 5 warning, at 3 danger.
\<close>

theorem getScoreColor_bands:
  "(7 \<le> s \<longrightarrow> getScoreColor s = success_color) \<and>
   (5 \<le> s \<and> s < 7 \<longrightarrow> getScoreColor s = warning_color) \<and>
   (s < 5 \<longrightarrow> getScoreColor s = danger_color) \<and>
   getScoreColor 9 = success_color \<and> getScoreColor 7 = success_color \<and>
   getScoreColor 6 = warning_color \<and> getScoreColor 5 = warning_color \<and>
   getScoreColor 3 = danger_color"
  by (simp add: getScoreColor_def success_color_def warning_color_def danger_color_def)

theorem getScoreColor_bands_witness:
  "(7::int) \<le> 8 \<and> getScoreColor 8 = success_color \<and>
   (5::int) \<le> 6 \<and> (6::int) < 7 \<and> getScoreColor 6 = warning_color \<and>
   (4::int) < 5 \<and> getScoreColor 4 = danger_color \<and>
   success_color \<noteq> warning_color \<and> warning_color \<noteq> danger_color \<and>
   success_color \<noteq> danger_color"
  using getScoreColor_bands [of 8] getScoreColor_bands [of 6] getScoreColor_bands [of 4]
  by (simp add: success_color_def warning_color_def danger_color_def)

subsection \<open>Superseded submissions\<close>



subsection \<open>An empty response\<close>

text \<open>
  C2, amended. For every response whose result sequence is empty, the submission does
  not end in a displayed result: the result stays null and the view has no result
  panel. Nothing is recorded of a failure either: the component has no cell for it,
  nothing is printed, and after the response every cell other than loading is what
  it was right after the submit.
\<close>

theorem empty_response_never_succeeds:
  "result (ui (step h (Settle (length (requests w)) (Resolved (Response (Some []))))
      (handleSubmit h w))) = None \<and>
   ui (step h (Settle (length (requests w)) (Resolved (Response (Some []))))
      (handleSubmit h w)) =
     (ui (handleSubmit h w))
       \<lparr>loading := loading (ui (step h (Settle (length (requests w))
           (Resolved (Response (Some [])))) (handleSubmit h w)))\<rparr> \<and>
   (\<exists>v. render h (ui (step h (Settle (length (requests w)) (Resolved (Response (Some []))))
      (handleSubmit h w))) = Inr v \<and> result_panel v = None) \<and>
   console (step h (Settle (length (requests w)) (Resolved (Response (Some []))))
      (handleSubmit h w)) = console w"
proof -
  let ?w' = "step h (Settle (length (requests w)) (Resolved (Response (Some []))))
      (handleSubmit h w)"
  have eq: "?w' = handleSubmit_resume h (Resolved (Response (Some [])))
      ((handleSubmit h w)\<lparr>requests := requests w\<rparr>)"
    by (rule settle_issued)
  have u: "ui ?w' = (ui (handleSubmit h w))\<lparr>loading := loading (ui ?w')\<rparr>"
    unfolding eq
    by (cases h) (simp_all add: handleSubmit_resume_def handleSubmit_ui setter_defs)
  have r: "result (ui ?w') = None"
    unfolding eq
    by (cases h) (simp_all add: handleSubmit_resume_def handleSubmit_ui setter_defs)
  have c: "console ?w' = console w"
    unfolding eq
    by (cases h)
       (simp_all add: handleSubmit_resume_def handleSubmit_def jacSpawn_def
          rotateLoadingMessages_def messages_def setter_defs Let_def)
  from r have "\<exists>v. render h (ui ?w') = Inr v \<and> result_panel v = None"
    by (simp add: render_no_result del: step.simps)
  with r u c show ?thesis by blast
qed

text \<open>
  C2 as stated fails. In a browser the filled form is submitted and the service answers
  with an empty sequence: the state is the one right after the click, still loading
  and still showing the loading message, and the request is no longer in flight. No
  failure and no reason "empty response" is anywhere: what ended \<^verbatim>\<open>handleSubmit\<close> is the
  ReferenceError of \<^verbatim>\<open>len\<close>, left among the unhandled rejections.
\<close>

theorem empty_response_is_failed_counterexample:
  "ui (run ECMAScript [Click, Settle 0 (Resolved (Response (Some [])))] filled) =
     ui (run ECMAScript [Click] filled) \<and>
   loading (ui (run ECMAScript [Click, Settle 0 (Resolved (Response (Some [])))] filled)) \<and>
   result (ui (run ECMAScript [Click, Settle 0 (Resolved (Response (Some [])))] filled)) =
     None \<and>
   render ECMAScript
     (ui (run ECMAScript [Click, Settle 0 (Resolved (Response (Some [])))] filled)) =
     Inr \<lparr>button_disabled = True, button_label = ''Consulting...'',
          loading_panel = Some ''Analyzing Architecture...'', result_panel = None\<rparr> \<and>
   requests (run ECMAScript [Click, Settle 0 (Resolved (Response (Some [])))] filled) = [] \<and>
   unhandled (run ECMAScript [Click, Settle 0 (Resolved (Response (Some [])))] filled) =
     [TypeError ''Promise constructor cannot be invoked without new'',
      ReferenceError ''len is not defined'']"
  by (simp add: run_defs)

subsection \<open>Submitting an incomplete form\<close>

text \<open>
  C3, amended. For every state in which stack or techIdea is the empty string, the
  submit button is disabled wherever the component renders (and it renders whenever no
  result is stored), and a click leaves everything as it is: loading is not set and no
  request is issued. The strings are compared as they are, without trimming, and the
  guard is the button's alone: \<^verbatim>\<open>handleSubmit\<close> has none.
\<close>

theorem empty_input_disables_button:
  "stack (ui w) = [] \<or> techIdea (ui w) = [] \<Longrightarrow>
     (render h (ui w) = Inr v \<longrightarrow> button_disabled v) \<and>
     (result (ui w) = None \<longrightarrow>
        render h (ui w) =
          Inr \<lparr>button_disabled = True,
               button_label = (if loading (ui w) then ''Consulting...'' else ''Get Assessment''),
               loading_panel = (if loading (ui w) then Some (loadingText (ui w)) else None),
               result_panel = None\<rparr>) \<and>
     step h Click w = w"
  by (auto simp: render_def result_element_def split: sum.splits)

theorem empty_input_disables_button_witness:
  "(stack (ui init) = [] \<or> techIdea (ui init) = []) \<and>
   result (ui init) = None \<and>
   render ECMAScript (ui init) =
     Inr \<lparr>button_disabled = True, button_label = ''Get Assessment'',
          loading_panel = None, result_panel = None\<rparr> \<and>
   step ECMAScript Click init = init \<and>
   \<not> loading (ui (step ECMAScript Click init)) \<and>
   requests (step ECMAScript Click init) = []"
  using empty_input_disables_button
    [of init ECMAScript "\<lparr>button_disabled = True, button_label = ''Get Assessment'',
          loading_panel = None, result_panel = None\<rparr>"]
  by (simp add: init_def init_state_def render_def result_element_def)

text \<open>
  C3 as stated fails, twice. With a stack of one space, which is empty after trimming,
  the button is enabled and a click runs \<^verbatim>\<open>handleSubmit\<close>: loading is set and a request
  with that stack is issued. And \<^verbatim>\<open>handleSubmit\<close> called with an empty stack sets loading
  and issues a request with the empty stack.
\<close>

theorem invalid_submit_counterexample:
  "step ECMAScript Click (setTechIdea ''idea'' (setStack '' '' init)) =
     handleSubmit ECMAScript (setTechIdea ''idea'' (setStack '' '' init)) \<and>
   loading (ui (step ECMAScript Click (setTechIdea ''idea'' (setStack '' '' init)))) \<and>
   map payload (requests
     (step ECMAScript Click (setTechIdea ''idea'' (setStack '' '' init)))) =
     [[(''role'', ''Solo Founder''), (''stack'', '' ''), (''tech_idea'', ''idea''),
       (''latency_req'', ''Real-time (<200ms)'')]] \<and>
   loading (ui (handleSubmit ECMAScript (setTechIdea ''idea'' init))) \<and>
   map payload (requests (handleSubmit ECMAScript (setTechIdea ''idea'' init))) =
     [[(''role'', ''Solo Founder''), (''stack'', []), (''tech_idea'', ''idea''),
       (''latency_req'', ''Real-time (<200ms)'')]]"
  by (simp add: run_defs)

subsection \<open>The rotation and the terminal state\<close>



subsection \<open>A failed request\<close>

text \<open>
  C5, amended. For every settlement of the request that is an error, \<^verbatim>\<open>handleSubmit\<close>
  makes no transition: the state is left as it was (after a submit: loading, with no
  result), the cause is stored nowhere in it, and the error leaves \<^verbatim>\<open>handleSubmit\<close> as
  the rejection of its promise, which nothing handles.
\<close>

theorem rejected_request_leaves_state:
  "i < length (requests w) \<Longrightarrow>
     ui (step h (Settle i (Rejected e)) w) = ui w \<and>
     unhandled (step h (Settle i (Rejected e)) w) = unhandled w @ [e] \<and>
     requests (step h (Settle i (Rejected e)) w) = without i (requests w) \<and>
     timers (step h (Settle i (Rejected e)) w) = timers w \<and>
     console (step h (Settle i (Rejected e)) w) = console w"
  by (simp add: handleSubmit_resume_def)

theorem rejected_request_leaves_state_witness:
  "0 < length (requests (handleSubmit ECMAScript filled)) \<and>
   ui (step ECMAScript (Settle 0 (Rejected (Rejection ''timeout'')))
        (handleSubmit ECMAScript filled)) = ui (handleSubmit ECMAScript filled) \<and>
   loading (ui (step ECMAScript (Settle 0 (Rejected (Rejection ''timeout'')))
      (handleSubmit ECMAScript filled))) \<and>
   unhandled (step ECMAScript (Settle 0 (Rejected (Rejection ''timeout'')))
      (handleSubmit ECMAScript filled)) =
     unhandled (handleSubmit ECMAScript filled) @ [Rejection ''timeout'']"
  using rejected_request_leaves_state
    [of 0 "handleSubmit ECMAScript filled" ECMAScript "Rejection ''timeout''"]
  by (simp add: handleSubmit_requests handleSubmit_ui)

text \<open>
  C5 as stated fails. The filled form is submitted and the request is rejected with a
  timeout: the state is the one right after the click, still loading and still showing
  the loading message, with no result; the timeout is not in the state but among the
  unhandled rejections.
\<close>

theorem rejected_request_counterexample:
  "ui (run ECMAScript [Click, Settle 0 (Rejected (Rejection ''timeout''))] filled) =
     ui (run ECMAScript [Click] filled) \<and>
   loading (ui (run ECMAScript
     [Click, Settle 0 (Rejected (Rejection ''timeout''))] filled)) \<and>
   result (ui (run ECMAScript
     [Click, Settle 0 (Rejected (Rejection ''timeout''))] filled)) = None \<and>
   render ECMAScript (ui (run ECMAScript
     [Click, Settle 0 (Rejected (Rejection ''timeout''))] filled)) =
     Inr \<lparr>button_disabled = True, button_label = ''Consulting...'',
          loading_panel = Some ''Analyzing Architecture...'', result_panel = None\<rparr> \<and>
   unhandled (run ECMAScript [Click, Settle 0 (Rejected (Rejection ''timeout''))] filled) =
     [TypeError ''Promise constructor cannot be invoked without new'',
      Rejection ''timeout''] \<and>
   requests (run ECMAScript [Click, Settle 0 (Rejected (Rejection ''timeout''))] filled) = []"
  by (simp add: run_defs)

subsection \<open>The rotation\<close>

text \<open>
  C6. The claim: the rotation goes through the four messages in order, one step every
  800 ms, and stops at the last. The list is the claimed one, but in a browser the
  rotation never takes a step: \<^verbatim>\<open>rotateLoadingMessages\<close> sets the first message and is
  ended by the TypeError of \<^verbatim>\<open>Promise\<close> called without \<^verbatim>\<open>new\<close>; whatever happens to the
  component from its initial state, the loading text is the first message and no timer
  is ever set.
\<close>

theorem rotation_never_advances:
  "messages =
     [''Analyzing Architecture...'', ''Calculating Latency Risks...'',
      ''Evaluating Tech Stack...'', ''Checking for Over-Engineering...''] \<and>
   rotateLoadingMessages ECMAScript w =
     (setLoadingText ''Analyzing Architecture...'' w)
       \<lparr>unhandled := unhandled w @
          [TypeError ''Promise constructor cannot be invoked without new'']\<rparr> \<and>
   loadingText (ui (run ECMAScript evs init)) = ''Analyzing Architecture...'' \<and>
   timers (run ECMAScript evs init) = []"
proof -
  have "first_message_only init"
    by (simp add: first_message_only_def init_def init_state_def messages_def)
  then have "first_message_only (run ECMAScript evs init)"
    by (rule first_message_only_run)
  then show ?thesis
    by (simp add: first_message_only_def messages_def rotateLoadingMessages_def
          setter_defs)
qed

subsection \<open>The start of a submission\<close>

text \<open>
  C8. Whatever the inputs and whatever the state before, \<^verbatim>\<open>handleSubmit\<close> at once sets
  loading, shows the first of the rotation messages (index 0) and discards the
  earlier result: the view is the loading panel with that message and no result
  panel. Where the component has rendered an enabled button, a click is such a call.
\<close>

theorem handleSubmit_enters_loading:
  "loading (ui (handleSubmit h w)) \<and>
   loadingText (ui (handleSubmit h w)) = messages ! 0 \<and>
   messages ! 0 = ''Analyzing Architecture...'' \<and>
   result (ui (handleSubmit h w)) = None \<and>
   render h (ui (handleSubmit h w)) =
     Inr \<lparr>button_disabled = True, button_label = ''Consulting...'',
          loading_panel = Some (messages ! 0), result_panel = None\<rparr> \<and>
   (render h (ui w) = Inr v \<and> \<not> button_disabled v \<longrightarrow>
      step h Click w = handleSubmit h w)"
  by (auto simp: handleSubmit_ui render_no_result messages_def)

theorem handleSubmit_enters_loading_witness:
  "render ECMAScript (ui filled) =
     Inr \<lparr>button_disabled = False, button_label = ''Get Assessment'',
          loading_panel = None, result_panel = None\<rparr> \<and>
   step ECMAScript Click filled = handleSubmit ECMAScript filled \<and>
   loading (ui (step ECMAScript Click filled)) \<and>
   loadingText (ui (step ECMAScript Click filled)) = ''Analyzing Architecture...''"
  using handleSubmit_enters_loading
    [of ECMAScript filled "\<lparr>button_disabled = False, button_label = ''Get Assessment'',
          loading_panel = None, result_panel = None\<rparr>"]
  by (simp add: filled_def init_def init_state_def setter_defs render_def result_element_def)

subsection \<open>The request\<close>

text \<open>
  C9. Each call of \<^verbatim>\<open>handleSubmit\<close> issues exactly one request, to the walker
  FeasibilityConsultant, whose object has exactly the four fields role, stack,
  tech_idea and latency_req, holding the role, stack, techIdea and latencyReq of the
  state at the call; the code run at the settlement issues none, and the settlement of
  that request leaves in flight what was in flight before the call.
\<close>

theorem handleSubmit_sends_four_fields:
  "requests (handleSubmit h w) =
     requests w @
     [\<lparr>walker = ''FeasibilityConsultant'', node = [],
       payload = [(''role'', role (ui w)), (''stack'', stack (ui w)),
                  (''tech_idea'', techIdea (ui w)),
                  (''latency_req'', latencyReq (ui w))]\<rparr>] \<and>
   map fst (payload (last (requests (handleSubmit h w)))) =
     [''role'', ''stack'', ''tech_idea'', ''latency_req''] \<and>
   length (requests (handleSubmit h w)) = Suc (length (requests w)) \<and>
   requests (handleSubmit_resume h s w) = requests w \<and>
   requests (step h (Settle (length (requests w)) s) (handleSubmit h w)) = requests w"
  by (simp add: settle_issued handleSubmit_requests del: step.simps)

subsection \<open>A resolved request\<close>

text \<open>
  C10. The claim: whenever the request resolves, \<^verbatim>\<open>handleSubmit\<close> ends with loading set
  to false, whatever the response holds. In a browser it does so only when the
  response has no result property. For every array, empty or not, the call of \<^verbatim>\<open>len\<close>
  on line 25 throws a ReferenceError: line 30 is not reached, the state stays the
  loading one of the submit, and no result is ever stored, in any world that the
  events lead to from the initial one.
\<close>

theorem array_response_keeps_loading:
  "ui (step ECMAScript (Settle (length (requests w)) (Resolved (Response (Some xs))))
        (handleSubmit ECMAScript w)) = ui (handleSubmit ECMAScript w) \<and>
   loading (ui (step ECMAScript (Settle (length (requests w)) (Resolved (Response (Some xs))))
        (handleSubmit ECMAScript w))) \<and>
   unhandled (step ECMAScript (Settle (length (requests w)) (Resolved (Response (Some xs))))
        (handleSubmit ECMAScript w)) =
     unhandled (handleSubmit ECMAScript w) @ [ReferenceError ''len is not defined''] \<and>
   loading (ui (run ECMAScript [Click, Settle 0 (Resolved (Response (Some [])))] filled)) \<and>
   loading (ui (run ECMAScript
     [Click, Settle 0 (Resolved (Response (Some [overkill])))] filled)) \<and>
   result (ui (run ECMAScript
     [Click, Settle 0 (Resolved (Response (Some [overkill])))] filled)) = None \<and>
   \<not> loading (ui (run ECMAScript [Click, Settle 0 (Resolved (Response None))] filled)) \<and>
   result (ui (run ECMAScript evs init)) = None"
proof -
  let ?w' = "step ECMAScript (Settle (length (requests w)) (Resolved (Response (Some xs))))
        (handleSubmit ECMAScript w)"
  have eq: "?w' = handleSubmit_resume ECMAScript (Resolved (Response (Some xs)))
      ((handleSubmit ECMAScript w)\<lparr>requests := requests w\<rparr>)"
    by (rule settle_issued)
  have u: "ui ?w' = ui (handleSubmit ECMAScript w)"
    unfolding eq by (simp add: resume_ECMAScript)
  then have l: "loading (ui ?w')"
    by (simp add: handleSubmit_ui del: step.simps)
  have x: "unhandled ?w' =
      unhandled (handleSubmit ECMAScript w) @ [ReferenceError ''len is not defined'']"
    unfolding eq by (simp add: resume_ECMAScript)
  have closed:
    "loading (ui (run ECMAScript [Click, Settle 0 (Resolved (Response (Some [])))] filled)) \<and>
     loading (ui (run ECMAScript
       [Click, Settle 0 (Resolved (Response (Some [overkill])))] filled)) \<and>
     result (ui (run ECMAScript
       [Click, Settle 0 (Resolved (Response (Some [overkill])))] filled)) = None \<and>
     \<not> loading (ui (run ECMAScript [Click, Settle 0 (Resolved (Response None))] filled))"
    by (simp add: run_defs)
  have "no_result init"
    by (simp add: no_result_def init_def init_state_def)
  then have "no_result (run ECMAScript evs init)"
    by (rule no_result_run)
  then have n: "result (ui (run ECMAScript evs init)) = None"
    by (simp add: no_result_def)
  from u l x closed n show ?thesis by blast
qed

end
